theory Spec2Isabelle
  imports Main "HOL-Library.Word"
begin

section \<open>Bytes, hexadecimal text and the string operations of the runtime\<close>

text \<open>
  The class \<open>PrivateKey\<close> wraps a wallet object of the signing library and moves the
  secret between three forms: a hexadecimal string, a byte buffer and the scalar the
  bytes denote. This section fixes the three forms and the runtime operations the class
  applies to them: \<open>String.startsWith\<close>, \<open>String.slice\<close>, \<open>String.replace\<close> with a
  string pattern, and \<open>Buffer.from(text, 'hex')\<close>.
\<close>

type_synonym byte = "8 word"
type_synonym bytes = "byte list"

text \<open>The value of one hexadecimal digit, of either case; \<open>None\<close> for any other character.\<close>

definition hex_val :: "char \<Rightarrow> nat option" where
  "hex_val c =
     (let n = (of_char c :: nat)
      in if 48 \<le> n \<and> n \<le> 57 then Some (n - 48)
         else if 97 \<le> n \<and> n \<le> 102 then Some (n - 87)
         else if 65 \<le> n \<and> n \<le> 70 then Some (n - 55)
         else None)"

text \<open>The lowercase digit of a value below 16.\<close>

definition hex_digit :: "nat \<Rightarrow> char" where
  "hex_digit n = (if n < 10 then char_of (48 + n) else char_of (87 + n))"

definition is_hex :: "char \<Rightarrow> bool" where
  "is_hex c = (hex_val c \<noteq> None)"

definition is_lower_hex :: "char \<Rightarrow> bool" where
  "is_lower_hex c =
     (let n = (of_char c :: nat) in (48 \<le> n \<and> n \<le> 57) \<or> (97 \<le> n \<and> n \<le> 102))"

text \<open>
  \<open>Buffer.from(text, 'hex')\<close>: the runtime decodes two characters per byte and stops,
  without raising, at the first pair that is not two hexadecimal digits; a single
  trailing character is dropped.
\<close>

fun Buffer_from_hex :: "string \<Rightarrow> bytes" where
  "Buffer_from_hex (a # b # cs) =
     (case hex_val a of
        None \<Rightarrow> []
      | Some h \<Rightarrow>
          (case hex_val b of
             None \<Rightarrow> []
           | Some l \<Rightarrow> word_of_nat (16 * h + l) # Buffer_from_hex cs))"
| "Buffer_from_hex _ = []"

text \<open>The lowercase hexadecimal text of a byte string, two digits per byte.\<close>

definition hex_of_byte :: "byte \<Rightarrow> string" where
  "hex_of_byte w = [hex_digit (unat w div 16), hex_digit (unat w mod 16)]"

definition hex_of :: "bytes \<Rightarrow> string" where
  "hex_of bs = concat (map hex_of_byte bs)"

text \<open>\<open>hexlify\<close> of the signing library: the \<open>0x\<close>-prefixed lowercase text of the bytes.\<close>

definition hexlify :: "bytes \<Rightarrow> string" where
  "hexlify bs = ''0x'' @ hex_of bs"

definition startsWith :: "string \<Rightarrow> string \<Rightarrow> bool" where
  "startsWith s p = (take (length p) s = p)"

definition slice :: "string \<Rightarrow> nat \<Rightarrow> string" where
  "slice s n = drop n s"

text \<open>\<open>s.replace(p, r)\<close> with a string pattern replaces the first occurrence only.\<close>

fun replace :: "string \<Rightarrow> string \<Rightarrow> string \<Rightarrow> string" where
  "replace [] p r = (if p = [] then r else [])"
| "replace (c # cs) p r =
     (if startsWith (c # cs) p then r @ drop (length p) (c # cs)
      else c # replace cs p r)"

text \<open>The scalar a byte string denotes, most significant byte first.\<close>

definition be_int :: "bytes \<Rightarrow> int" where
  "be_int bs = foldl (\<lambda>a b. 256 * a + uint b) 0 bs"

text \<open>The order of the group of secp256k1.\<close>

definition curve_order :: int where
  "curve_order = 0xFFFFFFFFFFFFFFFFFFFFFFFFFFFFFFFEBAAEDCE6AF48A03BBFD25E8CD0364141"

section \<open>The data model\<close>

text \<open>
  The source raises no error of its own: every failure is an exception thrown by a call
  into a library, which the methods let through. The kinds are those of the
  specification's error design.
\<close>

datatype error =
    InvalidMnemonic
  | InvalidSecretLength
  | InvalidSecretValue
  | InvalidDerivationPath
  | SigningError

text \<open>
  The wallet object of the signing library, by the two read-only fields the class reads:
  \<open>wallet.privateKey\<close> and \<open>wallet.address\<close>.
\<close>

record Wallet =
  privateKey :: string
  address :: string

text \<open>\<open>class PrivateKey { private wallet: Wallet }\<close>\<close>

record PrivateKey =
  wallet :: Wallet

text \<open>The argument of \<open>fromHex\<close>, of type \<open>string | Uint8Array\<close>.\<close>

datatype secret_input = Str string | Bytes bytes

text \<open>
  The signature object the wallet's signing key returns: the components \<open>r\<close> and \<open>s\<close>,
  each as the byte string its hexadecimal data string denotes, and the recovery id.
\<close>

record Signature =
  sig_r :: bytes
  sig_s :: bytes
  recoveryParam :: nat

text \<open>The result \<open>{ signature, recid }\<close> of \<open>secp256k1.ecdsaSign\<close>.\<close>

record EcdsaSignature =
  signature :: bytes
  recid :: nat

datatype SignTypedDataVersion = V1 | V3 | V4

text \<open>
  The trusted primitives: functions of the libraries and of sibling classes that the
  source calls and that are no part of it. They are parameters of every operation below.
  \<^item> \<open>keccak256\<close>: the hash of the \<open>keccak256\<close> package;
  \<open>signDigest\<close>: \<open>wallet._signingKey().signDigest(digest)\<close>;
  \<open>ecdsaSign\<close>: \<open>secp256k1.ecdsaSign(msg32, seckey)\<close>;
  \<open>eth_signTypedData\<close>: \<open>signTypedData({privateKey, data, version})\<close> of the typed-data
  package, which returns a hexadecimal string.
  \<^item> \<open>computeAddress\<close>: the address text the wallet derives from the secret bytes;
  \<open>validateMnemonic\<close> and \<open>derivePath\<close>: the BIP39 check and the BIP32 derivation
  inside \<open>Wallet.fromMnemonic\<close>; \<open>DEFAULT_DERIVATION_PATH\<close>: the constant of
  \<open>utils/constants\<close>.
  \<^item> \<open>PublicKey_fromHex\<close>, \<open>Address_fromHex\<close>, \<open>Address_toBech32\<close>: the sibling
  classes \<open>PublicKey\<close> and \<open>Address\<close>.
\<close>

record ('d, 'p, 'a) primitives =
  keccak256 :: "bytes \<Rightarrow> bytes"
  signDigest :: "Wallet \<Rightarrow> bytes \<Rightarrow> error + Signature"
  ecdsaSign :: "bytes \<Rightarrow> bytes \<Rightarrow> error + EcdsaSignature"
  eth_signTypedData :: "bytes \<Rightarrow> 'd \<Rightarrow> SignTypedDataVersion \<Rightarrow> error + string"
  computeAddress :: "bytes \<Rightarrow> string"
  validateMnemonic :: "string \<Rightarrow> bool"
  derivePath :: "string \<Rightarrow> string \<Rightarrow> error + bytes"
  DEFAULT_DERIVATION_PATH :: string
  PublicKey_fromHex :: "string \<Rightarrow> 'p"
  Address_fromHex :: "string \<Rightarrow> 'a"
  Address_toBech32 :: "'a \<Rightarrow> string"

section \<open>Key construction\<close>

text \<open>
  Modelled from the spec: the constructor \<open>new Wallet(bytes)\<close> of the signing library,
  which is not part of the source. The specification's data model and error design: the
  secret is exactly 32 bytes (\<open>InvalidSecretLength\<close> otherwise) and a valid scalar,
  nonzero and below the curve order (\<open>InvalidSecretValue\<close> otherwise); the wallet then
  holds the secret as \<open>0x\<close>-prefixed lowercase hexadecimal text and the address derived
  from it.
\<close>

definition Wallet_new :: "('d, 'p, 'a) primitives \<Rightarrow> bytes \<Rightarrow> error + Wallet" where
  "Wallet_new L b =
     (if length b \<noteq> 32 then Inl InvalidSecretLength
      else if be_int b = 0 \<or> curve_order \<le> be_int b then Inl InvalidSecretValue
      else Inr \<lparr>privateKey = hexlify b, address = computeAddress L b\<rparr>)"

text \<open>
  Modelled from the spec: \<open>Wallet.fromMnemonic(words, path)\<close> of the signing library,
  which is not part of the source. The phrase is validated against the BIP39 word list
  and checksum (\<open>InvalidMnemonic\<close> when that fails); otherwise the BIP32 derivation along
  the path gives the 32-byte scalar of the wallet.
\<close>

definition Wallet_fromMnemonic ::
  "('d, 'p, 'a) primitives \<Rightarrow> string \<Rightarrow> string \<Rightarrow> error + Wallet" where
  "Wallet_fromMnemonic L words path =
     (if \<not> validateMnemonic L words then Inl InvalidMnemonic
      else (case derivePath L words path of
              Inl e \<Rightarrow> Inl e
            | Inr secret \<Rightarrow> Wallet_new L secret))"

text \<open>\<open>new PrivateKey(wallet)\<close>, around a wallet construction that may have thrown.\<close>

definition new_PrivateKey :: "error + Wallet \<Rightarrow> error + PrivateKey" where
  "new_PrivateKey w = (case w of Inl e \<Rightarrow> Inl e | Inr v \<Rightarrow> Inr \<lparr>wallet = v\<rparr>)"

text \<open>
  \<open>static fromMnemonic(words, path = DEFAULT_DERIVATION_PATH)\<close>; an absent path is
  \<open>None\<close>.
\<close>

definition fromMnemonic ::
  "('d, 'p, 'a) primitives \<Rightarrow> string \<Rightarrow> string option \<Rightarrow> error + PrivateKey" where
  "fromMnemonic L words path =
     new_PrivateKey
       (Wallet_fromMnemonic L words
          (case path of None \<Rightarrow> DEFAULT_DERIVATION_PATH L | Some p \<Rightarrow> p))"

text \<open>
  \<open>static fromHex(privateKey: string | Uint8Array)\<close>. A string loses one leading
  \<open>0x\<close> and is decoded by \<open>Buffer.from(..., 'hex')\<close>; bytes go to the wallet as they
  are.
\<close>

fun fromHex_privateKeyBuff :: "secret_input \<Rightarrow> bytes" where
  "fromHex_privateKeyBuff (Str s) =
     (let privateKeyHex = (if startsWith s ''0x'' then slice s 2 else s)
      in Buffer_from_hex privateKeyHex)"
| "fromHex_privateKeyBuff (Bytes b) = b"

definition fromHex :: "('d, 'p, 'a) primitives \<Rightarrow> secret_input \<Rightarrow> error + PrivateKey" where
  "fromHex L inp = new_PrivateKey (Wallet_new L (fromHex_privateKeyBuff inp))"

section \<open>Export operations\<close>

definition toPrivateKeyHex :: "PrivateKey \<Rightarrow> string" where
  "toPrivateKeyHex k =
     (if startsWith (privateKey (wallet k)) ''0x'' then privateKey (wallet k)
      else ''0x'' @ privateKey (wallet k))"

definition toPublicKey :: "('d, 'p, 'a) primitives \<Rightarrow> PrivateKey \<Rightarrow> 'p" where
  "toPublicKey L k = PublicKey_fromHex L (privateKey (wallet k))"

definition toHex :: "PrivateKey \<Rightarrow> string" where
  "toHex k =
     (if startsWith (address (wallet k)) ''0x'' then address (wallet k)
      else ''0x'' @ address (wallet k))"

definition toAddress :: "('d, 'p, 'a) primitives \<Rightarrow> PrivateKey \<Rightarrow> 'a" where
  "toAddress L k = Address_fromHex L (toHex k)"

definition toBech32 :: "('d, 'p, 'a) primitives \<Rightarrow> PrivateKey \<Rightarrow> string" where
  "toBech32 L k = Address_toBech32 L (Address_fromHex L (toHex k))"

section \<open>Signing operations\<close>

text \<open>
  Every method is \<open>async\<close> and reads the key through \<open>const { wallet } = this\<close>. A
  method is modelled as a function of the key that returns its result, or the error it
  threw, together with the key object after the call.
\<close>

text \<open>\<open>hexZeroPad\<close> of the signing library: zero bytes on the left, up to the width.\<close>

definition zero_pad :: "nat \<Rightarrow> bytes \<Rightarrow> bytes" where
  "zero_pad n bs = replicate (n - length bs) 0 @ bs"

text \<open>
  Modelled from the spec: \<open>BytesUtils.splitSignature\<close> of the signing library, which is
  not part of the source. It returns the components \<open>r\<close> and \<open>s\<close> of the signature, each
  aligned to 32 bytes by padding on the left, since a component may serialise shorter; a
  component that does not fit in 32 bytes is rejected.
\<close>

definition splitSignature :: "Signature \<Rightarrow> error + Signature" where
  "splitSignature sg =
     (if length (sig_r sg) \<le> 32 \<and> length (sig_s sg) \<le> 32
      then Inr (sg\<lparr>sig_r := zero_pad 32 (sig_r sg), sig_s := zero_pad 32 (sig_s sg)\<rparr>)
      else Inl SigningError)"

text \<open>
  \<open>BytesUtils.concat\<close> joins the byte strings of its items; \<open>BytesUtils.arrayify\<close> of a
  byte array is the array.
\<close>

definition BytesUtils_concat :: "bytes list \<Rightarrow> bytes" where
  "BytesUtils_concat items = concat items"

definition arrayify :: "bytes \<Rightarrow> bytes" where
  "arrayify b = b"

text \<open>\<open>Uint8Array.from(buffer)\<close> copies the bytes.\<close>

definition Uint8Array_from :: "bytes \<Rightarrow> bytes" where
  "Uint8Array_from b = b"

definition sign ::
  "('d, 'p, 'a) primitives \<Rightarrow> bytes \<Rightarrow> PrivateKey \<Rightarrow> (error + bytes) \<times> PrivateKey" where
  "sign L messageBytes k =
     (let msgHash = keccak256 L messageBytes
      in case signDigest L (wallet k) msgHash of
           Inl e \<Rightarrow> (Inl e, k)
         | Inr sg \<Rightarrow>
             (case splitSignature sg of
                Inl e \<Rightarrow> (Inl e, k)
              | Inr split \<Rightarrow>
                  (Inr (arrayify (BytesUtils_concat [sig_r split, sig_s split])), k)))"

definition signEcda ::
  "('d, 'p, 'a) primitives \<Rightarrow> bytes \<Rightarrow> PrivateKey \<Rightarrow> (error + bytes) \<times> PrivateKey" where
  "signEcda L messageBytes k =
     (let msgHash = keccak256 L messageBytes;
          privateKeyHex =
            (if startsWith (privateKey (wallet k)) ''0x'' then slice (privateKey (wallet k)) 2
             else privateKey (wallet k));
          secret = Uint8Array_from (Buffer_from_hex privateKeyHex)
      in case ecdsaSign L msgHash secret of
           Inl e \<Rightarrow> (Inl e, k)
         | Inr res \<Rightarrow> (Inr (signature res), k))"

definition signHashed ::
  "('d, 'p, 'a) primitives \<Rightarrow> bytes \<Rightarrow> PrivateKey \<Rightarrow> (error + bytes) \<times> PrivateKey" where
  "signHashed L messageHashedBytes k =
     (case signDigest L (wallet k) messageHashedBytes of
        Inl e \<Rightarrow> (Inl e, k)
      | Inr sg \<Rightarrow>
          (case splitSignature sg of
             Inl e \<Rightarrow> (Inl e, k)
           | Inr split \<Rightarrow>
               (Inr (arrayify (BytesUtils_concat [sig_r split, sig_s split])), k)))"

definition signHashedEcda ::
  "('d, 'p, 'a) primitives \<Rightarrow> bytes \<Rightarrow> PrivateKey \<Rightarrow> (error + bytes) \<times> PrivateKey" where
  "signHashedEcda L messageHashedBytes k =
     (let privateKeyHex =
            (if startsWith (privateKey (wallet k)) ''0x'' then slice (privateKey (wallet k)) 2
             else privateKey (wallet k));
          secret = Uint8Array_from (Buffer_from_hex privateKeyHex)
      in case ecdsaSign L messageHashedBytes secret of
           Inl e \<Rightarrow> (Inl e, k)
         | Inr res \<Rightarrow> (Inr (signature res), k))"

definition signTypedData ::
  "('d, 'p, 'a) primitives \<Rightarrow> 'd \<Rightarrow> PrivateKey \<Rightarrow> (error + bytes) \<times> PrivateKey" where
  "signTypedData L eip712Data k =
     (let privateKeyHex =
            (if startsWith (privateKey (wallet k)) ''0x'' then slice (privateKey (wallet k)) 2
             else privateKey (wallet k))
      in case eth_signTypedData L (Buffer_from_hex privateKeyHex) eip712Data V4 of
           Inl e \<Rightarrow> (Inl e, k)
         | Inr sg \<Rightarrow> (Inr (Buffer_from_hex (replace sg ''0x'' [])), k))"

definition signHashedTypedData ::
  "('d, 'p, 'a) primitives \<Rightarrow> bytes \<Rightarrow> PrivateKey \<Rightarrow> (error + bytes) \<times> PrivateKey" where
  "signHashedTypedData L eip712Data k =
     (let privateKeyHex =
            (if startsWith (privateKey (wallet k)) ''0x'' then slice (privateKey (wallet k)) 2
             else privateKey (wallet k));
          secret = Uint8Array_from (Buffer_from_hex privateKeyHex)
      in case ecdsaSign L eip712Data secret of
           Inl e \<Rightarrow> (Inl e, k)
         | Inr res \<Rightarrow> (Inr (signature res), k))"

section \<open>Auxiliary notions for the statements\<close>

text \<open>
  The text of a stored hexadecimal string without its prefix: the expression
  \<open>s.startsWith('0x') ? s.slice(2) : s\<close> that the methods apply to the stored secret.
\<close>

definition strip_0x :: "string \<Rightarrow> string" where
  "strip_0x s = (if startsWith s ''0x'' then slice s 2 else s)"



text \<open>
  A concrete instance of the primitives, with simple answers, on which the operations
  run on concrete inputs. Its signers refuse a digest or a secret that is not 32 bytes
  long; its signing key returns a short \<open>r\<close>, so that the padding shows; its low-level
  signer returns 64 bytes and its typed-data signer the text of 65. For the secret of 32
  bytes \<open>0x01\<close> its address is the text the signing library derives for that secret, in
  the library's checksum case.
\<close>

definition test_primitives :: "(string, string, string) primitives" where
  "test_primitives =
     \<lparr>keccak256 = (\<lambda>m. take 32 (m @ replicate 32 7)),
      signDigest =
        (\<lambda>w d. if length d = 32
                then Inr \<lparr>sig_r = [1, 2], sig_s = replicate 32 3, recoveryParam = 1\<rparr>
                else Inl SigningError),
      ecdsaSign =
        (\<lambda>d key. if length d = 32 \<and> length key = 32
                  then Inr \<lparr>signature = key @ d, recid = 0\<rparr>
                  else Inl SigningError),
      eth_signTypedData =
        (\<lambda>key data v. if length key = 32 then Inr (hexlify (key @ key @ [27]))
                       else Inl SigningError),
      computeAddress =
        (\<lambda>b. if b = replicate 32 1 then ''0x1a642f0E3c3aF545E7AcBD38b07251B3990914F1''
              else hexlify (drop 12 b)),
      validateMnemonic = (\<lambda>words. words = ''abandon ability''),
      derivePath = (\<lambda>words path. Inr (replicate 32 1)),
      DEFAULT_DERIVATION_PATH = ''m/44/60/0/0/0'',
      PublicKey_fromHex = (\<lambda>h. h),
      Address_fromHex = (\<lambda>h. h),
      Address_toBech32 = (\<lambda>a. ''inj'' @ a)\<rparr>"

text \<open>
  The key of the secret of 32 bytes \<open>0x01\<close>: its wallet stores the text of the secret and
  the address in checksum case.
\<close>

definition key_01 :: PrivateKey where
  "key_01 =
     \<lparr>wallet =
        \<lparr>privateKey = ''0x0101010101010101010101010101010101010101010101010101010101010101'',
         address = ''0x1a642f0E3c3aF545E7AcBD38b07251B3990914F1''\<rparr>\<rparr>"

section \<open>Hexadecimal round trips\<close>

lemma hex_val_hex_digit: "n < 16 \<Longrightarrow> hex_val (hex_digit n) = Some n"
  by (auto simp: hex_val_def hex_digit_def Let_def)

lemma is_lower_hex_hex_digit: "n < 16 \<Longrightarrow> is_lower_hex (hex_digit n)"
  by (auto simp: is_lower_hex_def hex_digit_def Let_def)

lemma is_lower_hex_is_hex: "is_lower_hex c \<Longrightarrow> is_hex c"
  by (auto simp: is_lower_hex_def is_hex_def hex_val_def Let_def)

lemma Buffer_from_hex_hex_of_byte:
  "Buffer_from_hex (hex_of_byte w @ cs) = w # Buffer_from_hex cs"
proof -
  have hi: "unat w div 16 < 16"
    using unsigned_less [of w, where ?'a = nat] by (simp add: less_mult_imp_div_less)
  have lo: "unat w mod 16 < 16" by simp
  show ?thesis
    by (simp add: hex_of_byte_def hex_val_hex_digit [OF hi] hex_val_hex_digit [OF lo]
        del: of_nat_add of_nat_mult)
qed

lemma Buffer_from_hex_hex_of: "Buffer_from_hex (hex_of bs @ cs) = bs @ Buffer_from_hex cs"
  by (induction bs) (simp_all add: hex_of_def Buffer_from_hex_hex_of_byte)

lemma Buffer_from_hex_roundtrip: "Buffer_from_hex (hex_of bs) = bs"
  using Buffer_from_hex_hex_of [of bs "[]"] by simp

lemma length_hex_of: "length (hex_of bs) = 2 * length bs"
  by (induction bs) (simp_all add: hex_of_def hex_of_byte_def)

lemma lower_hex_hex_of: "list_all is_lower_hex (hex_of bs)"
proof (induction bs)
  case Nil
  show ?case by (simp add: hex_of_def)
next
  case (Cons w bs)
  have hi: "unat w div 16 < 16"
    using unsigned_less [of w, where ?'a = nat] by (simp add: less_mult_imp_div_less)
  have lo: "unat w mod 16 < 16" by simp
  from Cons show ?case
    by (simp add: hex_of_def hex_of_byte_def is_lower_hex_hex_digit [OF hi]
        is_lower_hex_hex_digit [OF lo])
qed

lemma hex_val_less: "hex_val c = Some n \<Longrightarrow> n < 16"
  by (auto simp: hex_val_def Let_def split: if_splits)



lemma hex_of_Cons: "hex_of (w # ws) = hex_of_byte w @ hex_of ws"
  by (simp add: hex_of_def)

lemma hex_val_hex_of_byte:
  assumes "h < 16" and "l < 16"
  shows "map hex_val (hex_of_byte (word_of_nat (16 * h + l))) = [Some h, Some l]"
proof -
  have "16 * h + l < 256" using assms by arith
  then have u: "unat (word_of_nat (16 * h + l) :: byte) = 16 * h + l"
    by (simp add: unsigned_of_nat take_bit_nat_eq_self del: of_nat_add of_nat_mult)
  have d: "(16 * h + l) div 16 = h" and m: "(16 * h + l) mod 16 = l"
    using assms by simp_all
  show ?thesis
    unfolding hex_of_byte_def u d m
    by (simp add: hex_val_hex_digit assms)
qed

text \<open>
  On a string of hexadecimal digits the decoder consumes every pair; when the number of
  digits is even, the bytes spell the same digit values again.
\<close>

lemma Buffer_from_hex_all_digits:
  "list_all is_hex h \<Longrightarrow>
     length (Buffer_from_hex h) = length h div 2
     \<and> (even (length h) \<longrightarrow> map hex_val (hex_of (Buffer_from_hex h)) = map hex_val h)"
proof (induction h rule: Buffer_from_hex.induct)
  case (1 a b cs)
  from 1(2) obtain h l where ha: "hex_val a = Some h" and hb: "hex_val b = Some l"
    by (auto simp: is_hex_def)
  from 1(2) have cs: "list_all is_hex cs" by simp
  note ih = 1(1) [OF ha hb cs]
  have hl: "h < 16" "l < 16" using ha hb by (auto dest: hex_val_less)
  show ?case
    using ih
    by (simp add: ha hb hex_of_Cons hex_val_hex_of_byte [OF hl] del: of_nat_add of_nat_mult)
qed (simp_all add: hex_of_def)





section \<open>Facts about the prefix\<close>






lemma strip_0x_hexlify: "strip_0x (hexlify b) = hex_of b"
  by (simp add: strip_0x_def hexlify_def startsWith_def slice_def)

section \<open>Facts about construction\<close>

lemma Wallet_new_Inr:
  "Wallet_new L b = Inr w \<Longrightarrow> w = \<lparr>privateKey = hexlify b, address = computeAddress L b\<rparr>"
  by (auto simp: Wallet_new_def split: if_splits)

lemma fromHex_Inr:
  assumes "fromHex L inp = Inr k"
  shows "Wallet_new L (fromHex_privateKeyBuff inp) = Inr (wallet k)"
  using assms by (auto simp: fromHex_def new_PrivateKey_def split: sum.splits)

lemma fromHex_privateKeyBuff_hexlify: "fromHex_privateKeyBuff (Str (hexlify b)) = b"
  by (simp add: hexlify_def startsWith_def slice_def Buffer_from_hex_roundtrip)

lemma toPrivateKeyHex_hexlify:
  "privateKey (wallet k) = hexlify b \<Longrightarrow> toPrivateKeyHex k = hexlify b"
  by (simp add: toPrivateKeyHex_def hexlify_def startsWith_def)



section \<open>Facts about the signing operations\<close>

lemma sign_snd: "snd (sign L m k) = k"
  by (simp add: sign_def Let_def split: sum.splits)

lemma signEcda_snd: "snd (signEcda L m k) = k"
  by (simp add: signEcda_def Let_def split: sum.splits)

lemma signHashed_snd: "snd (signHashed L m k) = k"
  by (simp add: signHashed_def Let_def split: sum.splits)

lemma signHashedEcda_snd: "snd (signHashedEcda L m k) = k"
  by (simp add: signHashedEcda_def Let_def split: sum.splits)

lemma signTypedData_snd: "snd (signTypedData L m k) = k"
  by (simp add: signTypedData_def Let_def split: sum.splits)

lemma signHashedTypedData_snd: "snd (signHashedTypedData L m k) = k"
  by (simp add: signHashedTypedData_def Let_def split: sum.splits)

lemma length_zero_pad: "length bs \<le> n \<Longrightarrow> length (zero_pad n bs) = n"
  by (simp add: zero_pad_def)

lemma sign_result:
  "fst (sign L messageBytes k) =
     (case signDigest L (wallet k) (keccak256 L messageBytes) of
        Inl e \<Rightarrow> Inl e
      | Inr sg \<Rightarrow>
          if length (sig_r sg) \<le> 32 \<and> length (sig_s sg) \<le> 32
          then Inr (zero_pad 32 (sig_r sg) @ zero_pad 32 (sig_s sg))
          else Inl SigningError)"
  by (simp add: sign_def splitSignature_def BytesUtils_concat_def arrayify_def Let_def
      split: sum.splits)

lemma signHashed_result:
  "fst (signHashed L digest k) =
     (case signDigest L (wallet k) digest of
        Inl e \<Rightarrow> Inl e
      | Inr sg \<Rightarrow>
          if length (sig_r sg) \<le> 32 \<and> length (sig_s sg) \<le> 32
          then Inr (zero_pad 32 (sig_r sg) @ zero_pad 32 (sig_s sg))
          else Inl SigningError)"
  by (simp add: signHashed_def splitSignature_def BytesUtils_concat_def arrayify_def Let_def
      split: sum.splits)

lemma signEcda_result:
  "fst (signEcda L messageBytes k) =
     (case ecdsaSign L (keccak256 L messageBytes)
             (Buffer_from_hex (strip_0x (privateKey (wallet k)))) of
        Inl e \<Rightarrow> Inl e
      | Inr res \<Rightarrow> Inr (signature res))"
  by (simp add: signEcda_def strip_0x_def Uint8Array_from_def Let_def split: sum.splits)

lemma signHashedEcda_result:
  "fst (signHashedEcda L digest k) =
     (case ecdsaSign L digest (Buffer_from_hex (strip_0x (privateKey (wallet k)))) of
        Inl e \<Rightarrow> Inl e
      | Inr res \<Rightarrow> Inr (signature res))"
  by (simp add: signHashedEcda_def strip_0x_def Uint8Array_from_def Let_def split: sum.splits)

lemma signHashedTypedData_result:
  "fst (signHashedTypedData L digest k) =
     (case ecdsaSign L digest (Buffer_from_hex (strip_0x (privateKey (wallet k)))) of
        Inl e \<Rightarrow> Inl e
      | Inr res \<Rightarrow> Inr (signature res))"
  by (simp add: signHashedTypedData_def strip_0x_def Uint8Array_from_def Let_def
      split: sum.splits)

lemma signTypedData_result:
  "fst (signTypedData L eip712Data k) =
     (case eth_signTypedData L (Buffer_from_hex (strip_0x (privateKey (wallet k))))
             eip712Data V4 of
        Inl e \<Rightarrow> Inl e
      | Inr sg \<Rightarrow> Inr (Buffer_from_hex (replace sg ''0x'' [])))"
  by (simp add: signTypedData_def strip_0x_def Let_def split: sum.splits)

lemma replace_prefix: "startsWith sg ''0x'' \<Longrightarrow> replace sg ''0x'' [] = slice sg 2"
  by (cases sg) (simp_all add: startsWith_def slice_def)

text \<open>
  The two signing paths hand the same digest to their primitives, and the low-level path
  hands over the bytes that the stored secret spells. When the two primitives return the
  same components for them, the outputs of the two paths are equal.
\<close>

lemma signing_paths_agree_when_primitives_agree:
  assumes "signDigest L (wallet k) digest = Inr sg"
      and "ecdsaSign L digest (Buffer_from_hex (strip_0x (privateKey (wallet k)))) = Inr res"
      and "length (sig_r sg) \<le> 32" and "length (sig_s sg) \<le> 32"
      and "signature res = zero_pad 32 (sig_r sg) @ zero_pad 32 (sig_s sg)"
  shows "fst (signHashed L digest k) = fst (signHashedEcda L digest k)"
  using assms by (simp add: signHashed_result signHashedEcda_result)

section \<open>Export operations: the single-prefix rule\<close>




section \<open>Construction from a secret\<close>

text \<open>
  Claim C6. A key constructed by \<open>fromHex\<close> from any accepted secret, exported with
  \<open>toPrivateKeyHex\<close> and imported again with \<open>fromHex\<close>, is the same key: the same
  wallet, hence the same derived public key, address and exported secret.
\<close>

theorem fromHex_toPrivateKeyHex_roundtrip:
  assumes "fromHex L secret = Inr k"
  shows "fromHex L (Str (toPrivateKeyHex k)) = Inr k
       \<and> (case fromHex L (Str (toPrivateKeyHex k)) of
            Inl e \<Rightarrow> False
          | Inr k' \<Rightarrow> toPublicKey L k' = toPublicKey L k \<and> toHex k' = toHex k
              \<and> toBech32 L k' = toBech32 L k \<and> toPrivateKeyHex k' = toPrivateKeyHex k)"
proof -
  let ?b = "fromHex_privateKeyBuff secret"
  have w: "Wallet_new L ?b = Inr (wallet k)" using assms by (rule fromHex_Inr)
  then have pk: "privateKey (wallet k) = hexlify ?b"
    by (auto dest: Wallet_new_Inr)
  have "fromHex L (Str (toPrivateKeyHex k)) = new_PrivateKey (Wallet_new L ?b)"
    by (simp only: fromHex_def toPrivateKeyHex_hexlify [OF pk] fromHex_privateKeyBuff_hexlify)
  also have "\<dots> = Inr k" by (simp add: w new_PrivateKey_def)
  finally show ?thesis by simp
qed

text \<open>The round trip at the secret of 32 bytes \<open>0x01\<close>.\<close>

theorem fromHex_toPrivateKeyHex_roundtrip_witness:
  "fromHex test_primitives (Bytes (replicate 32 1)) = Inr key_01
   \<and> fromHex test_primitives (Str (toPrivateKeyHex key_01)) = Inr key_01"
proof -
  have h: "fromHex test_primitives (Bytes (replicate 32 1)) = Inr key_01" by code_simp
  from fromHex_toPrivateKeyHex_roundtrip [OF h]
  have "fromHex test_primitives (Str (toPrivateKeyHex key_01)) = Inr key_01"
    by (rule conjunct1)
  with h show ?thesis by (intro conjI)
qed




section \<open>Signing operations: frame and equal paths\<close>

text \<open>
  Claim C9. No signing operation changes the key: after each of \<open>sign\<close>, \<open>signEcda\<close>,
  \<open>signHashed\<close>, \<open>signHashedEcda\<close>, \<open>signTypedData\<close> and \<open>signHashedTypedData\<close> the key
  object is the one before the call, and so are its wallet, \<open>toPrivateKeyHex\<close>,
  \<open>toHex\<close>, \<open>toPublicKey\<close> and \<open>toBech32\<close>.
\<close>

theorem signing_leaves_key_unchanged:
  "list_all
     (\<lambda>k'. k' = k \<and> wallet k' = wallet k
        \<and> toPrivateKeyHex k' = toPrivateKeyHex k \<and> toHex k' = toHex k
        \<and> toPublicKey L k' = toPublicKey L k \<and> toBech32 L k' = toBech32 L k)
     [snd (sign L messageBytes k), snd (signEcda L messageBytes k),
      snd (signHashed L digest k), snd (signHashedEcda L digest k),
      snd (signTypedData L eip712Data k), snd (signHashedTypedData L digest k)]"
  by (simp add: sign_snd signEcda_snd signHashed_snd signHashedEcda_snd signTypedData_snd
      signHashedTypedData_snd)

text \<open>
  Claim C10. \<open>signHashedTypedData\<close> and \<open>signHashedEcda\<close> are the same function: on every
  key and every byte input they return the same result, or the same error.
\<close>

theorem signHashedTypedData_is_signHashedEcda:
  "signHashedTypedData L digest k = signHashedEcda L digest k"
  by (simp add: signHashedTypedData_def signHashedEcda_def)

section \<open>Signing operations: the shape of the outputs\<close>

text \<open>
  Claim C2. Let the key be built from a secret the wallet constructor accepted, and let
  the two primitives that return raw material keep their output formats on that secret:
  the low-level signer a compact signature of 64 bytes, the typed-data signer the text
  \<open>0x\<close> followed by 130 hexadecimal digits (\<open>r\<close>, \<open>s\<close> and the recovery byte). Then each
  operation fails exactly when its primitive fails, with the same error, and otherwise
  returns: \<open>signTypedData\<close> the 65 bytes that the digits spell; \<open>sign\<close> and \<open>signHashed\<close>
  64 bytes; \<open>signEcda\<close>, \<open>signHashedEcda\<close> and \<open>signHashedTypedData\<close> the 64 bytes of the
  low-level signer, unchanged, which was given the secret itself and the digest.
\<close>

theorem signature_lengths:
  assumes key: "Wallet_new L secret = Inr (wallet k)"
      and ecdsa: "\<forall>d res. ecdsaSign L d secret = Inr res \<longrightarrow> length (signature res) = 64"
      and typed: "\<forall>sg. eth_signTypedData L secret eip712Data V4 = Inr sg \<longrightarrow>
                    startsWith sg ''0x'' \<and> length sg = 132 \<and> list_all is_hex (slice sg 2)"
  shows "map_sum id length (fst (signTypedData L eip712Data k))
           = map_sum id (\<lambda>sg. 65) (eth_signTypedData L secret eip712Data V4)
       \<and> map_sum id length (fst (sign L messageBytes k))
           = (case signDigest L (wallet k) (keccak256 L messageBytes) of
                Inl e \<Rightarrow> Inl e
              | Inr sg \<Rightarrow>
                  if length (sig_r sg) \<le> 32 \<and> length (sig_s sg) \<le> 32 then Inr 64
                  else Inl SigningError)
       \<and> map_sum id length (fst (signEcda L messageBytes k))
           = map_sum id (\<lambda>res. 64) (ecdsaSign L (keccak256 L messageBytes) secret)
       \<and> map_sum id length (fst (signHashed L digest k))
           = (case signDigest L (wallet k) digest of
                Inl e \<Rightarrow> Inl e
              | Inr sg \<Rightarrow>
                  if length (sig_r sg) \<le> 32 \<and> length (sig_s sg) \<le> 32 then Inr 64
                  else Inl SigningError)
       \<and> map_sum id length (fst (signHashedEcda L digest k))
           = map_sum id (\<lambda>res. 64) (ecdsaSign L digest secret)
       \<and> map_sum id length (fst (signHashedTypedData L digest k))
           = map_sum id (\<lambda>res. 64) (ecdsaSign L digest secret)
       \<and> fst (signTypedData L eip712Data k)
           = map_sum id (\<lambda>sg. Buffer_from_hex (slice sg 2))
               (eth_signTypedData L secret eip712Data V4)
       \<and> fst (signEcda L messageBytes k)
           = map_sum id signature (ecdsaSign L (keccak256 L messageBytes) secret)
       \<and> fst (signHashedEcda L digest k) = map_sum id signature (ecdsaSign L digest secret)
       \<and> fst (signHashedTypedData L digest k)
           = map_sum id signature (ecdsaSign L digest secret)"
proof -
  from key have pk: "privateKey (wallet k) = hexlify secret"
    by (auto dest: Wallet_new_Inr)
  have sec: "Buffer_from_hex (strip_0x (privateKey (wallet k))) = secret"
    by (simp add: pk strip_0x_hexlify Buffer_from_hex_roundtrip)
  have e1: "fst (signEcda L messageBytes k)
      = map_sum id signature (ecdsaSign L (keccak256 L messageBytes) secret)"
    by (simp add: signEcda_result sec split: sum.splits)
  have e2: "fst (signHashedEcda L digest k) = map_sum id signature (ecdsaSign L digest secret)"
    by (simp add: signHashedEcda_result sec split: sum.splits)
  have e3: "fst (signHashedTypedData L digest k)
      = map_sum id signature (ecdsaSign L digest secret)"
    by (simp add: signHashedTypedData_result sec split: sum.splits)
  have len: "map_sum id length (map_sum id signature (ecdsaSign L d secret))
      = map_sum id (\<lambda>res. 64) (ecdsaSign L d secret)" for d
    by (cases "ecdsaSign L d secret") (simp_all add: ecdsa [rule_format])
  have t1: "fst (signTypedData L eip712Data k)
      = map_sum id (\<lambda>sg. Buffer_from_hex (slice sg 2))
          (eth_signTypedData L secret eip712Data V4)"
  proof (cases "eth_signTypedData L secret eip712Data V4")
    case (Inl e)
    then show ?thesis by (simp add: signTypedData_result sec)
  next
    case (Inr sg)
    from typed [rule_format, OF Inr] have "startsWith sg ''0x''" by simp
    then show ?thesis by (simp add: signTypedData_result sec Inr replace_prefix)
  qed
  have t2: "map_sum id length (fst (signTypedData L eip712Data k))
      = map_sum id (\<lambda>sg. 65) (eth_signTypedData L secret eip712Data V4)"
  proof (cases "eth_signTypedData L secret eip712Data V4")
    case (Inl e)
    then show ?thesis by (simp add: t1)
  next
    case (Inr sg)
    from typed [rule_format, OF Inr] have n: "length sg = 132"
      and h: "list_all is_hex (slice sg 2)" by simp_all
    have "length (Buffer_from_hex (slice sg 2)) = length (slice sg 2) div 2"
      using Buffer_from_hex_all_digits [OF h] by simp
    also have "\<dots> = 65" using n by (simp add: slice_def)
    finally show ?thesis by (simp add: t1 Inr)
  qed
  have s1: "map_sum id length (fst (sign L messageBytes k))
      = (case signDigest L (wallet k) (keccak256 L messageBytes) of
           Inl e \<Rightarrow> Inl e
         | Inr sg \<Rightarrow>
             if length (sig_r sg) \<le> 32 \<and> length (sig_s sg) \<le> 32 then Inr 64
             else Inl SigningError)"
    by (simp add: sign_result length_zero_pad split: sum.splits)
  have s2: "map_sum id length (fst (signHashed L digest k))
      = (case signDigest L (wallet k) digest of
           Inl e \<Rightarrow> Inl e
         | Inr sg \<Rightarrow>
             if length (sig_r sg) \<le> 32 \<and> length (sig_s sg) \<le> 32 then Inr 64
             else Inl SigningError)"
    by (simp add: signHashed_result length_zero_pad split: sum.splits)
  have l1: "map_sum id length (fst (signEcda L messageBytes k))
      = map_sum id (\<lambda>res. 64) (ecdsaSign L (keccak256 L messageBytes) secret)"
    by (simp only: e1 len)
  have l2: "map_sum id length (fst (signHashedEcda L digest k))
      = map_sum id (\<lambda>res. 64) (ecdsaSign L digest secret)"
    by (simp only: e2 len)
  have l3: "map_sum id length (fst (signHashedTypedData L digest k))
      = map_sum id (\<lambda>res. 64) (ecdsaSign L digest secret)"
    by (simp only: e3 len)
  from t2 s1 l1 s2 l2 l3 t1 e1 e2 e3 show ?thesis by (intro conjI)
qed

text \<open>
  The six operations on the key of the secret of 32 bytes \<open>0x01\<close>, a message and a
  digest of 32 bytes: each returns, \<open>signTypedData\<close> 65 bytes and the others 64.
\<close>

theorem signature_lengths_witness:
  "Wallet_new test_primitives (replicate 32 1) = Inr (wallet key_01)
   \<and> map_sum id length (fst (signTypedData test_primitives ''data'' key_01)) = Inr 65
   \<and> map_sum id length (fst (sign test_primitives [1, 2, 3] key_01)) = Inr 64
   \<and> map_sum id length (fst (signEcda test_primitives [1, 2, 3] key_01)) = Inr 64
   \<and> map_sum id length (fst (signHashed test_primitives (replicate 32 9) key_01)) = Inr 64
   \<and> map_sum id length (fst (signHashedEcda test_primitives (replicate 32 9) key_01)) = Inr 64
   \<and> map_sum id length (fst (signHashedTypedData test_primitives (replicate 32 9) key_01))
       = Inr 64"
proof -
  have h0: "Wallet_new test_primitives (replicate 32 1) = Inr (wallet key_01)" by code_simp
  have h1: "\<forall>d res. ecdsaSign test_primitives d (replicate 32 1) = Inr res
              \<longrightarrow> length (signature res) = 64"
    by (auto simp: test_primitives_def split: if_splits)
  have h2: "\<forall>sg. eth_signTypedData test_primitives (replicate 32 1) ''data'' V4 = Inr sg
              \<longrightarrow> startsWith sg ''0x'' \<and> length sg = 132 \<and> list_all is_hex (slice sg 2)"
  proof (intro allI impI)
    fix sg
    assume "eth_signTypedData test_primitives (replicate 32 1) ''data'' V4 = Inr sg"
    then have sg: "sg = hexlify (replicate 32 1 @ replicate 32 1 @ [27])"
      by (simp add: test_primitives_def)
    have "list_all is_hex (hex_of (replicate 32 1 @ replicate 32 1 @ [27]))"
      using lower_hex_hex_of [of "replicate 32 1 @ replicate 32 1 @ [27]"]
      by (simp add: list_all_iff is_lower_hex_is_hex)
    then show "startsWith sg ''0x'' \<and> length sg = 132 \<and> list_all is_hex (slice sg 2)"
      unfolding sg by (simp add: hexlify_def startsWith_def slice_def length_hex_of)
  qed
  note t = signature_lengths [of test_primitives "replicate 32 1" key_01 "''data''"
      "[1, 2, 3]" "replicate 32 9", OF h0 h1 h2]
  note c1 = t [THEN conjunct1] and r1 = t [THEN conjunct2]
  note c2 = r1 [THEN conjunct1] and r2 = r1 [THEN conjunct2]
  note c3 = r2 [THEN conjunct1] and r3 = r2 [THEN conjunct2]
  note c4 = r3 [THEN conjunct1] and r4 = r3 [THEN conjunct2]
  note c5 = r4 [THEN conjunct1] and r5 = r4 [THEN conjunct2]
  note c6 = r5 [THEN conjunct1]
  have a1: "map_sum id length (fst (signTypedData test_primitives ''data'' key_01)) = Inr 65"
    by (rule trans [OF c1]) code_simp
  have a2: "map_sum id length (fst (sign test_primitives [1, 2, 3] key_01)) = Inr 64"
    by (rule trans [OF c2]) code_simp
  have a3: "map_sum id length (fst (signEcda test_primitives [1, 2, 3] key_01)) = Inr 64"
    by (rule trans [OF c3]) code_simp
  have a4: "map_sum id length (fst (signHashed test_primitives (replicate 32 9) key_01))
      = Inr 64"
    by (rule trans [OF c4]) code_simp
  have a5: "map_sum id length (fst (signHashedEcda test_primitives (replicate 32 9) key_01))
      = Inr 64"
    by (rule trans [OF c5]) code_simp
  have a6: "map_sum id length
        (fst (signHashedTypedData test_primitives (replicate 32 9) key_01))
      = Inr 64"
    by (rule trans [OF c6]) code_simp
  from h0 a1 a2 a3 a4 a5 a6 show ?thesis by (intro conjI)
qed

text \<open>
  Claim C5. \<open>sign\<close> hashes the message with keccak-256, has the wallet's signing key sign
  that digest, and returns the component \<open>r\<close> padded on the left with zero bytes to 32
  bytes, followed by the component \<open>s\<close> padded the same way: 64 bytes. An error of the
  signing routine is passed on, and a component that does not fit in 32 bytes is refused.
  The recovery id of the signature has no part in the output: replacing it by any other
  value leaves the output as it is.
\<close>

theorem sign_returns_padded_r_s:
  "fst (sign L messageBytes k) =
     (case signDigest L (wallet k) (keccak256 L messageBytes) of
        Inl e \<Rightarrow> Inl e
      | Inr sg \<Rightarrow>
          if length (sig_r sg) \<le> 32 \<and> length (sig_s sg) \<le> 32
          then Inr ((replicate (32 - length (sig_r sg)) 0 @ sig_r sg)
                    @ (replicate (32 - length (sig_s sg)) 0 @ sig_s sg))
          else Inl SigningError)
   \<and> (case fst (sign L messageBytes k) of
         Inl e \<Rightarrow> True
       | Inr out \<Rightarrow> length out = 64 \<and> length (take 32 out) = 32 \<and> length (drop 32 out) = 32)
   \<and> fst (sign (L\<lparr>signDigest :=
                     \<lambda>w d. map_sum id (recoveryParam_update f) (signDigest L w d)\<rparr>)
             messageBytes k)
       = fst (sign L messageBytes k)"
proof -
  have a: "fst (sign L messageBytes k) =
     (case signDigest L (wallet k) (keccak256 L messageBytes) of
        Inl e \<Rightarrow> Inl e
      | Inr sg \<Rightarrow>
          if length (sig_r sg) \<le> 32 \<and> length (sig_s sg) \<le> 32
          then Inr ((replicate (32 - length (sig_r sg)) 0 @ sig_r sg)
                    @ (replicate (32 - length (sig_s sg)) 0 @ sig_s sg))
          else Inl SigningError)"
    by (simp add: sign_result zero_pad_def split: sum.splits)
  have b: "case fst (sign L messageBytes k) of
         Inl e \<Rightarrow> True
       | Inr out \<Rightarrow> length out = 64 \<and> length (take 32 out) = 32 \<and> length (drop 32 out) = 32"
    by (simp add: sign_result length_zero_pad split: sum.splits)
  have c: "fst (sign (L\<lparr>signDigest :=
                     \<lambda>w d. map_sum id (recoveryParam_update f) (signDigest L w d)\<rparr>)
             messageBytes k)
       = fst (sign L messageBytes k)"
    by (cases "signDigest L (wallet k) (keccak256 L messageBytes)")
      (simp_all add: sign_result)
  from a b c show ?thesis by (intro conjI)
qed

text \<open>A signing key that returns the two-byte \<open>r\<close> = 0x0102: 30 zero bytes go before it.\<close>

theorem sign_returns_padded_r_s_witness:
  "fst (sign test_primitives [1, 2, 3] key_01)
   = Inr (replicate 30 0 @ [1, 2] @ replicate 32 3)"
  by (rule trans [OF sign_returns_padded_r_s [of test_primitives "[1, 2, 3]" key_01,
          THEN conjunct1]])
    code_simp

section \<open>Construction from a mnemonic\<close>

text \<open>
  Claim C8. \<open>fromMnemonic\<close> first validates the phrase and fails with \<open>InvalidMnemonic\<close>
  when the validation fails, whatever the derivation would have produced: the result is
  the same under any other derivation function. Only for a valid phrase does it derive
  along the path, the default path when none is given, and construct the key from the
  derived scalar.
\<close>

theorem fromMnemonic_validates_before_deriving:
  "fromMnemonic L words path =
     (if validateMnemonic L words
      then new_PrivateKey
             (case derivePath L words
                     (case path of None \<Rightarrow> DEFAULT_DERIVATION_PATH L | Some p \<Rightarrow> p) of
                Inl e \<Rightarrow> Inl e
              | Inr secret \<Rightarrow> Wallet_new L secret)
      else Inl InvalidMnemonic)
   \<and> (\<not> validateMnemonic L words \<longrightarrow>
        fromMnemonic (L\<lparr>derivePath := d\<rparr>) words path = Inl InvalidMnemonic)"
  by (simp add: fromMnemonic_def Wallet_fromMnemonic_def new_PrivateKey_def)

text \<open>An invalid phrase, under a derivation that would fail in its own way.\<close>

theorem fromMnemonic_validates_before_deriving_witness:
  "\<not> validateMnemonic test_primitives ''abandon''
   \<and> fromMnemonic
        (test_primitives\<lparr>derivePath := \<lambda>words path. Inl InvalidDerivationPath\<rparr>)
        ''abandon'' None
      = Inl InvalidMnemonic"
proof -
  have h: "\<not> validateMnemonic test_primitives ''abandon''"
    by (simp add: test_primitives_def)
  from fromMnemonic_validates_before_deriving
         [of test_primitives "''abandon''" None "\<lambda>words path. Inl InvalidDerivationPath",
          THEN conjunct2, THEN mp, OF h] h
  show ?thesis by (intro conjI)
qed

end
